theory Spec2Isabelle
  imports Main "HOL-Library.Word"
begin

section \<open>JavaScript values\<close>

text \<open>
  A JavaScript string is a sequence of UTF-16 code units: \<open>length\<close> counts code
  units and \<open>substring\<close> cuts between them. The literals of \<open>index.js\<close> that the
  model needs are ASCII and are written with \<open>str\<close>.
\<close>

type_synonym jsstring = "16 word list"

definition str :: "string \<Rightarrow> jsstring" where
  "str s = map of_char s"

text \<open>
  \<open>String.prototype.trim\<close> strips the code points WhiteSpace and LineTerminator of
  ECMAScript from both ends (TAB, LF, VT, FF, CR, SP, NBSP, the Unicode space
  separators, LS, PS and the byte order mark).
\<close>

definition isWhiteSpace :: "16 word \<Rightarrow> bool" where
  "isWhiteSpace c \<longleftrightarrow> c \<in> set [0x09, 0x0A, 0x0B, 0x0C, 0x0D, 0x20, 0xA0, 0x1680,
     0x2000, 0x2001, 0x2002, 0x2003, 0x2004, 0x2005, 0x2006, 0x2007, 0x2008, 0x2009,
     0x200A, 0x2028, 0x2029, 0x202F, 0x205F, 0x3000, 0xFEFF]"

definition trim :: "jsstring \<Rightarrow> jsstring" where
  "trim s = rev (dropWhile isWhiteSpace (rev (dropWhile isWhiteSpace s)))"

text \<open>The decimal rendering of a non-negative integer in a template literal.\<close>

fun digits :: "nat \<Rightarrow> jsstring" where
  "digits n = (if n < 10 then [of_nat (48 + n)]
               else digits (n div 10) @ [of_nat (48 + n mod 10)])"

declare digits.simps [simp del]

text \<open>
  A value that the code reads a property of, or tests for truth, is \<open>undefined\<close>,
  \<open>null\<close> or something else. Reading a property of \<open>undefined\<close> or \<open>null\<close> throws a
  TypeError; reading a property that an object lacks, or one of the properties below
  of a primitive or an array, gives \<open>undefined\<close>. A JSON payload is represented by
  what the reads of \<open>index.js\<close> find in it: each record below has the properties the
  code reads. The leaves \<open>message\<close>, \<open>status\<close> and \<open>output\<close> are typed as the wire
  protocol types them: a string, \<open>null\<close> or absent. The \<open>attributes\<close> of a status
  reply are the one other value that the code tests for truth: a falsy primitive
  there behaves as \<open>null\<close> does, a truthy one as an object without \<open>status\<close>.
\<close>

datatype 'a js = Undefined | Null | Val 'a

datatype jserror = Error jsstring | TypeError

definition read_prop :: "'a js \<Rightarrow> ('a \<Rightarrow> 'b js) \<Rightarrow> jserror + 'b js" where
  "read_prop v p = (case v of Val x \<Rightarrow> Inr (p x) | _ \<Rightarrow> Inl TypeError)"
  \<comment> \<open>\<open>v.p\<close>\<close>

definition read_opt :: "'a js \<Rightarrow> ('a \<Rightarrow> 'b js) \<Rightarrow> 'b js" where
  "read_opt v p = (case v of Val x \<Rightarrow> p x | _ \<Rightarrow> Undefined)"
  \<comment> \<open>\<open>v?.p\<close>\<close>

definition truthy :: "jsstring js \<Rightarrow> bool" where
  "truthy v = (case v of Val s \<Rightarrow> s \<noteq> [] | _ \<Rightarrow> False)"

definition or_empty :: "jsstring js \<Rightarrow> jsstring" where
  "or_empty v = (case v of Val s \<Rightarrow> (if s \<noteq> [] then s else []) | _ \<Rightarrow> [])"
  \<comment> \<open>\<open>v || ''\<close> for a value that is a string, \<open>undefined\<close> or \<open>null\<close>\<close>

definition template :: "jsstring js \<Rightarrow> jsstring" where
  "template v = (case v of Val s \<Rightarrow> s | Null \<Rightarrow> str ''null'' | Undefined \<Rightarrow> str ''undefined'')"
  \<comment> \<open>the text of a string, \<open>undefined\<close> or \<open>null\<close> when it is printed or interpolated\<close>

definition bind :: "jserror + 'a \<Rightarrow> ('a \<Rightarrow> jserror + 'b) \<Rightarrow> jserror + 'b" where
  "bind r f = (case r of Inl e \<Rightarrow> Inl e | Inr x \<Rightarrow> f x)"
  \<comment> \<open>sequencing inside a \<open>try\<close> block: the first throw ends it\<close>

section \<open>Payloads of the Forge API\<close>

datatype handle = IdNum int | IdStr jsstring

record 'a body =
  data :: "'a js"
  message :: "jsstring js"

record created =
  id_js :: "handle js"

record 'a resource =
  attributes :: "'a js"

record deployment =
  status :: "jsstring js"

record logs =
  output_js :: "jsstring js"

text \<open>
  What the network answers to one request: a transport failure with its message, or
  a status code with a body that is empty, fails to parse (with the parser's
  message), is the JSON \<open>null\<close>, or is any other JSON value.
\<close>

datatype 'a parsed = Empty | Unparsable jsstring | JsonNull | Json 'a

datatype 'a reply = Failure jsstring | Reply nat "'a parsed"

section \<open>The trace of a run\<close>

datatype request = POST_deployments | GET_deployment "handle js" | GET_log "handle js"

text \<open>One constructor for each message that \<open>index.js\<close> prints.\<close>

datatype msg =
    MissingVars
  | MissingVar jsstring
  | EnvValidated
  | Starting
  | Created "handle js"
  | CreateFailed jserror
  | FetchStatusFailed jserror
  | OutputHeader
  | Text jsstring
  | OutputFooter
  | Monitoring
  | TimedOut
  | StatusIs "jsstring js"
  | Completed
  | FinalHeader
  | FinalFooter
  | Title
  | Rule
  | RuleNL
  | ActionOk
  | ActionFailed jserror

datatype event = Http request | Log msg | Err msg

section \<open>Configuration\<close>

definition POLL_INTERVAL :: int where
  "POLL_INTERVAL = 10000"

definition TIMEOUT :: int where
  "TIMEOUT = 600000"

record config =
  FORGE_API_TOKEN :: "jsstring option"
  FORGE_ORGANIZATION :: "jsstring option"
  FORGE_SERVER_ID :: "jsstring option"
  FORGE_SITE_ID :: "jsstring option"

definition falsy :: "jsstring option \<Rightarrow> bool" where
  "falsy v = (case v of None \<Rightarrow> True | Some s \<Rightarrow> s = [])"
  \<comment> \<open>\<open>!value\<close> for an environment variable: unset or empty\<close>

definition required :: "config \<Rightarrow> (jsstring \<times> jsstring option) list" where
  "required cfg =
     [(str ''FORGE_API_TOKEN'', FORGE_API_TOKEN cfg),
      (str ''FORGE_ORGANIZATION'', FORGE_ORGANIZATION cfg),
      (str ''FORGE_SERVER_ID'', FORGE_SERVER_ID cfg),
      (str ''FORGE_SITE_ID'', FORGE_SITE_ID cfg)]"

definition missing :: "config \<Rightarrow> jsstring list" where
  "missing cfg = map fst (filter (\<lambda>(_, v). falsy v) (required cfg))"

text \<open>
  \<open>validateEnvironment\<close> returns the lines it prints and \<open>Some 1\<close> when it ends the
  process with \<open>process.exit(1)\<close>, \<open>None\<close> when it returns.
\<close>

definition validateEnvironment :: "config \<Rightarrow> event list \<times> nat option" where
  "validateEnvironment cfg =
     (if length (missing cfg) > 0
      then (Err MissingVars # map (\<lambda>key. Err (MissingVar key)) (missing cfg), Some 1)
      else ([Log EnvValidated], None))"

section \<open>The API client\<close>

definition makeForgeRequest ::
  "request \<Rightarrow> 'a reply \<Rightarrow> event list \<times> (jserror + nat \<times> 'a js)" where
  "makeForgeRequest req r =
     ([Http req],
      (case r of
         Failure m \<Rightarrow> Inl (Error (str ''Request failed: '' @ m))
       | Reply statusCode Empty \<Rightarrow> Inr (statusCode, Null)
       | Reply statusCode (Unparsable m) \<Rightarrow>
           Inl (Error (str ''Failed to parse JSON response: '' @ m))
       | Reply statusCode JsonNull \<Rightarrow> Inr (statusCode, Null)
       | Reply statusCode (Json v) \<Rightarrow> Inr (statusCode, Val v)))"

definition errorMessages :: "nat \<rightharpoonup> jsstring" where
  "errorMessages = map_of
     [(401, str ''Authentication failed. Please check your FORGE_API_TOKEN.''),
      (403, str ''Access forbidden. You do not have permission to perform this action.''),
      (404, str ''Resource not found. Please check your organization, server, and site IDs.''),
      (422, str ''Unprocessable entity. Invalid request data.''),
      (429, str ''Rate limit exceeded. Please try again later.''),
      (500, str ''Forge server error. Please try again later.''),
      (503, str ''Forge is offline for maintenance.'')]"

text \<open>\<open>handleApiError\<close> always throws; the model returns the error it throws.\<close>

definition handleApiError :: "nat \<Rightarrow> ('a, 'b) body_scheme js \<Rightarrow> jserror" where
  "handleApiError statusCode d =
     (let msg = (case errorMessages statusCode of
                   Some m \<Rightarrow> m
                 | None \<Rightarrow> str ''API request failed with status '' @ digits statusCode);
          details = or_empty (read_opt d message)
      in Error (msg @ (if details \<noteq> [] then str '' - '' @ details else [])))"

section \<open>Trigger\<close>

definition createDeployment :: "created body reply \<Rightarrow> event list \<times> (jserror + handle js)" where
  "createDeployment r =
     (let (ev, response) = makeForgeRequest POST_deployments r;
          result = bind response (\<lambda>(statusCode, d).
                     if statusCode \<noteq> 202 then Inl (handleApiError statusCode d)
                     else bind (read_prop d data) (\<lambda>dd. read_prop dd id_js))
      in case result of
           Inr deploymentId \<Rightarrow> ([Log Starting] @ ev @ [Log (Created deploymentId)], Inr deploymentId)
         | Inl error \<Rightarrow> ([Log Starting] @ ev @ [Err (CreateFailed error)], Inl error))"

section \<open>Status and log fetches\<close>

definition getDeploymentStatus ::
  "handle js \<Rightarrow> deployment resource body reply \<Rightarrow> event list \<times> deployment js" where
  "getDeploymentStatus deploymentId r =
     (let (ev, response) = makeForgeRequest (GET_deployment deploymentId) r;
          result = bind response (\<lambda>(statusCode, d).
                     if statusCode \<noteq> 200 then Inl (handleApiError statusCode d)
                     else bind (read_prop d data) (\<lambda>dd. read_prop dd attributes))
      in case result of
           Inr a \<Rightarrow> (ev, a)
         | Inl error \<Rightarrow> (ev @ [Err (FetchStatusFailed error)], Null))"

definition getDeploymentOutput ::
  "handle js \<Rightarrow> logs resource body reply \<Rightarrow> event list \<times> jsstring js" where
  "getDeploymentOutput deploymentId r =
     (let (ev, response) = makeForgeRequest (GET_log deploymentId) r;
          result = bind response (\<lambda>(statusCode, d).
                     if statusCode \<noteq> 200 then Inr Null
                     else bind (read_prop d data) (\<lambda>dd.
                          bind (read_prop dd attributes) (\<lambda>a.
                          Inr (Val (or_empty (read_opt a output_js))))))
      in case result of
           Inr out \<Rightarrow> (ev, out)
         | Inl error \<Rightarrow> (ev, Null))"

section \<open>Incremental display of the log\<close>

definition displayLogs :: "jsstring js \<Rightarrow> nat \<Rightarrow> event list \<times> nat" where
  "displayLogs out lastDisplayedLength =
     (case out of
        Val s \<Rightarrow>
          if s = [] \<or> length s \<le> lastDisplayedLength then ([], lastDisplayedLength)
          else (let newContent = drop lastDisplayedLength s
                in ((if trim newContent \<noteq> []
                     then [Log OutputHeader, Log (Text newContent), Log OutputFooter]
                     else []),
                    length s))
      | _ \<Rightarrow> ([], lastDisplayedLength))"

section \<open>The polling loop\<close>

text \<open>
  One firing of the interval timer: the value of \<open>Date.now()\<close> when the callback
  starts, and what the network would answer to the status request, to the log
  request and to the final log request of that cycle (each is consulted only if
  the cycle issues the request). The timer is set to fire every \<open>POLL_INTERVAL\<close>
  milliseconds; the times at which it does are part of the input. A cycle is taken
  to finish before the next timer firing starts.
\<close>

record tick =
  now :: int
  statusReply :: "deployment resource body reply"
  outputReply :: "logs resource body reply"
  finalReply :: "logs resource body reply"

record poll_state =
  lastDisplayedLength :: nat
  lastStatus :: "jsstring js"

datatype settled = Resolved "jsstring js" "jsstring js" | Rejected jserror

text \<open>
  The callback of \<open>setInterval\<close>. It returns what it prints and requests, the
  variables of the closure, and \<open>Some\<close> of the promise's outcome when it calls
  \<open>clearInterval\<close>.
\<close>

definition cycle ::
  "int \<Rightarrow> handle js \<Rightarrow> poll_state \<Rightarrow> tick \<Rightarrow> event list \<times> poll_state \<times> settled option" where
  "cycle startTime deploymentId st t =
     (if now t - startTime > TIMEOUT
      then ([Err TimedOut], st, Some (Rejected (Error (str ''Deployment timeout''))))
      else
        (case getDeploymentStatus deploymentId (statusReply t) of
           (ev1, Val deployment) \<Rightarrow>
             (let status = status deployment;
                  (ev2, st2) = (if status \<noteq> lastStatus st
                                then ([Log (StatusIs status)], st\<lparr>lastStatus := status\<rparr>)
                                else ([], st));
                  (ev3, out) = getDeploymentOutput deploymentId (outputReply t);
                  (ev4, st3) = (if truthy out
                                then (let (ev, n) = displayLogs out (lastDisplayedLength st2)
                                      in (ev, st2\<lparr>lastDisplayedLength := n\<rparr>))
                                else ([], st2));
                  ev = ev1 @ ev2 @ ev3 @ ev4
              in if status = Val (str ''finished'')
                 then (ev @ [Log Completed], st3, Some (Resolved status out))
                 else if status = Val (str ''failed'') \<or> status = Val (str ''failed-build'')
                 then (let (ev5, finalOutput) = getDeploymentOutput deploymentId (finalReply t);
                           ev6 = (if truthy finalOutput
                                  then [Err FinalHeader, Err (Text (template finalOutput)),
                                        Err FinalFooter]
                                  else [])
                       in (ev @ ev5 @ ev6, st3,
                           Some (Rejected (Error (str ''Deployment '' @ template status)))))
                 else if status = Val (str ''cancelled'')
                 then (ev, st3, Some (Rejected (Error (str ''Deployment was cancelled''))))
                 else (ev, st3, None))
         | (ev1, _) \<Rightarrow> (ev1, st, None)))"

text \<open>
  The timer fires once for each tick until a cycle clears it; the ticks after that
  never run. \<open>None\<close> is a promise still pending when the given ticks are used up.
\<close>

fun pollLoop ::
  "int \<Rightarrow> handle js \<Rightarrow> poll_state \<Rightarrow> tick list \<Rightarrow> event list \<times> poll_state \<times> settled option" where
  "pollLoop startTime deploymentId st [] = ([], st, None)"
| "pollLoop startTime deploymentId st (t # ts) =
     (case cycle startTime deploymentId st t of
        (ev, st', Some r) \<Rightarrow> (ev, st', Some r)
      | (ev, st', None) \<Rightarrow>
          (let (ev', st'', r) = pollLoop startTime deploymentId st' ts
           in (ev @ ev', st'', r)))"

definition pollDeployment ::
  "int \<Rightarrow> handle js \<Rightarrow> tick list \<Rightarrow> event list \<times> settled option" where
  "pollDeployment startTime deploymentId ts =
     (let (ev, st, r) = pollLoop startTime deploymentId
                          \<lparr>lastDisplayedLength = 0, lastStatus = Val []\<rparr> ts
      in (Log Monitoring # ev, r))"

section \<open>Main\<close>

record env =
  trigger :: "created body reply"
  startTime :: int
  ticks :: "tick list"

text \<open>
  \<open>main\<close> returns the trace and the exit code of the process, \<open>None\<close> while the
  polling promise is pending.
\<close>

definition main :: "config \<Rightarrow> env \<Rightarrow> event list \<times> nat option" where
  "main cfg e =
     (let ev0 = [Log Title, Log Rule] in
      case validateEnvironment cfg of
        (ev1, Some code) \<Rightarrow> (ev0 @ ev1, Some code)
      | (ev1, None) \<Rightarrow>
          (case createDeployment (trigger e) of
             (ev2, Inl error) \<Rightarrow>
               (ev0 @ ev1 @ ev2 @ [Err RuleNL, Err (ActionFailed error)], Some 1)
           | (ev2, Inr deploymentId) \<Rightarrow>
               (case pollDeployment (startTime e) deploymentId (ticks e) of
                  (ev3, None) \<Rightarrow> (ev0 @ ev1 @ ev2 @ ev3, None)
                | (ev3, Some (Rejected error)) \<Rightarrow>
                    (ev0 @ ev1 @ ev2 @ ev3 @ [Err RuleNL, Err (ActionFailed error)], Some 1)
                | (ev3, Some (Resolved s out)) \<Rightarrow>
                    (ev0 @ ev1 @ ev2 @ ev3 @ [Log RuleNL, Log ActionOk], Some 0))))"

section \<open>Replies of the wire protocol and observations of a trace\<close>

text \<open>
  The replies that the platform documents: 202 with \<open>{data: {id}}\<close> to the trigger,
  200 with \<open>{data: {attributes: {status}}}\<close> to a status request and 200 with
  \<open>{data: {attributes: {output}}}\<close> to a log request.
\<close>

definition created_202 :: "handle \<Rightarrow> created body reply" where
  "created_202 h = Reply 202 (Json \<lparr>data = Val \<lparr>id_js = Val h\<rparr>, message = Undefined\<rparr>)"

definition status_200 :: "jsstring \<Rightarrow> deployment resource body reply" where
  "status_200 s =
     Reply 200 (Json \<lparr>data = Val \<lparr>attributes = Val \<lparr>status = Val s\<rparr>\<rparr>, message = Undefined\<rparr>)"

definition log_200 :: "jsstring \<Rightarrow> logs resource body reply" where
  "log_200 s =
     Reply 200 (Json \<lparr>data = Val \<lparr>attributes = Val \<lparr>output_js = Val s\<rparr>\<rparr>, message = Undefined\<rparr>)"

text \<open>
  A timer firing at time \<open>n\<close> at which the platform reports the status \<open>s\<close> and
  the log \<open>l\<close>.
\<close>

definition tick_at :: "int \<Rightarrow> jsstring \<Rightarrow> jsstring \<Rightarrow> tick" where
  "tick_at n s l =
     \<lparr>now = n, statusReply = status_200 s, outputReply = log_200 l, finalReply = log_200 l\<rparr>"

text \<open>The status-change notifications of a trace, and its network requests.\<close>

fun notifications :: "event list \<Rightarrow> jsstring js list" where
  "notifications [] = []"
| "notifications (Log (StatusIs s) # ev) = s # notifications ev"
| "notifications (_ # ev) = notifications ev"

fun requests :: "event list \<Rightarrow> request list" where
  "requests [] = []"
| "requests (Http r # ev) = r # requests ev"
| "requests (_ # ev) = requests ev"

text \<open>
  The status that a cycle fetches: \<open>None\<close> when the cycle stops at the timeout check
  or the status fetch gives nothing to evaluate.
\<close>

definition fetched :: "int \<Rightarrow> handle js \<Rightarrow> tick \<Rightarrow> jsstring js option" where
  "fetched start h t =
     (if now t - start > TIMEOUT then None
      else (case snd (getDeploymentStatus h (statusReply t)) of
              Val d \<Rightarrow> Some (status d)
            | _ \<Rightarrow> None))"

section \<open>Strings\<close>

lemma of_char_less_256: "(of_char x :: nat) < 256"
proof -
  have "(of_char x :: nat) mod 256 = of_char x"
    by (rule of_char_mod_256)
  moreover have "(of_char x :: nat) mod 256 < 256"
    by simp
  ultimately show ?thesis
    by simp
qed

lemma unat_of_char: "unat (of_char x :: 16 word) = of_char x"
proof -
  have "unat (of_nat (of_char x) :: 16 word) = of_char x mod 2 ^ 16"
    by (simp add: unat_of_nat)
  also have "\<dots> = of_char x"
  proof -
    have "(of_char x :: nat) < 2 ^ 16"
      by (rule less_le_trans [OF of_char_less_256]) simp
    then show ?thesis
      by (rule mod_less)
  qed
  finally show ?thesis
    by (simp add: of_nat_of_char)
qed

lemma str_inject [simp]: "str a = str b \<longleftrightarrow> a = b"
proof
  assume "str a = str b"
  then have "map unat (str a) = map unat (str b)"
    by simp
  then have "map (of_char :: char \<Rightarrow> nat) a = map of_char b"
    by (simp add: str_def unat_of_char comp_def)
  then show "a = b"
    by (simp add: inj_map_eq_map inj_of_char)
qed simp

lemma str_empty_iff [simp]: "str a = [] \<longleftrightarrow> a = []"
  by (simp add: str_def)

lemma str_empty_iff2 [simp]: "[] = str a \<longleftrightarrow> a = []"
  by (simp add: str_def)

lemma str_append: "str (a @ b) = str a @ str b"
  by (simp add: str_def)

section \<open>Incremental display: the cursor and the increment\<close>

lemma trim_empty_iff: "trim s = [] \<longleftrightarrow> (\<forall>c \<in> set s. isWhiteSpace c)"
proof
  assume "trim s = []"
  then have "dropWhile isWhiteSpace (rev (dropWhile isWhiteSpace s)) = []"
    by (simp add: trim_def)
  then have all: "\<forall>c \<in> set (dropWhile isWhiteSpace s). isWhiteSpace c"
    by simp
  have "dropWhile isWhiteSpace s = []"
  proof (cases "dropWhile isWhiteSpace s")
    case Nil
    then show ?thesis .
  next
    case (Cons x xs)
    then have "\<not> isWhiteSpace x"
      using hd_dropWhile [of isWhiteSpace s] by simp
    with all Cons show ?thesis by simp
  qed
  then show "\<forall>c \<in> set s. isWhiteSpace c"
    by simp
next
  assume "\<forall>c \<in> set s. isWhiteSpace c"
  then show "trim s = []"
    by (auto simp: trim_def dest: set_dropWhileD)
qed

lemma displayLogs_Val:
  "displayLogs (Val s) c =
     (if c < length s
      then ((if \<forall>x \<in> set (drop c s). isWhiteSpace x then []
             else [Log OutputHeader, Log (Text (drop c s)), Log OutputFooter]), length s)
      else ([], c))"
  by (auto simp: displayLogs_def trim_empty_iff Let_def)

lemma displayLogs_mono: "c \<le> snd (displayLogs out c)"
  by (cases out) (simp_all add: displayLogs_def Let_def)

lemma foldl_displayLogs_mono: "c \<le> foldl (\<lambda>n out. snd (displayLogs out n)) c outs"
proof (induction outs arbitrary: c)
  case Nil
  show ?case by simp
next
  case (Cons out outs)
  have "c \<le> snd (displayLogs out c)"
    by (rule displayLogs_mono)
  also have "\<dots> \<le> foldl (\<lambda>n out. snd (displayLogs out n)) (snd (displayLogs out c)) outs"
    by (rule Cons.IH)
  finally show ?case by simp
qed

text \<open>
  Claim C2, as amended. For every cursor \<open>c\<close> and fetched log \<open>s\<close>: if \<open>s\<close> is
  strictly longer than \<open>c\<close>, the new cursor is the length of \<open>s\<close> and what is
  displayed is exactly the suffix of \<open>s\<close> from \<open>c\<close> on, unless that suffix is
  whitespace only, in which case nothing is displayed; if \<open>s\<close> is not longer than
  \<open>c\<close>, nothing is displayed and the cursor is unchanged. So the cursor never
  decreases, over one fetch and over any sequence of fetches.
\<close>

theorem displayLogs_increment:
  "displayLogs (Val s) c =
     (if c < length s
      then ((if \<exists>x \<in> set (drop c s). \<not> isWhiteSpace x
             then [Log OutputHeader, Log (Text (drop c s)), Log OutputFooter]
             else []), length s)
      else ([], c))
   \<and> c \<le> snd (displayLogs out c)
   \<and> c \<le> foldl (\<lambda>n out. snd (displayLogs out n)) c outs"
  by (simp add: displayLogs_Val displayLogs_mono foldl_displayLogs_mono)

text \<open>
  The examples of the claim: \<open>"AB"\<close> then \<open>"ABCD"\<close> displays exactly \<open>"CD"\<close>, and
  \<open>"AB"\<close> then \<open>"AB"\<close> displays nothing and leaves the cursor at 2.
\<close>

theorem displayLogs_increment_witness:
  "displayLogs (Val (str ''AB'')) 0 =
     ([Log OutputHeader, Log (Text (str ''AB'')), Log OutputFooter], 2)
   \<and> displayLogs (Val (str ''ABCD'')) 2 =
     ([Log OutputHeader, Log (Text (str ''CD'')), Log OutputFooter], 4)
   \<and> displayLogs (Val (str ''AB'')) 2 = ([], 2)
   \<and> (2::nat) \<le> foldl (\<lambda>n out. snd (displayLogs out n)) 2 [Val (str ''ABCD''), Val (str ''AB'')]"
proof -
  have first: "displayLogs (Val (str ''AB'')) 0 =
      ([Log OutputHeader, Log (Text (str ''AB'')), Log OutputFooter], 2)"
    using displayLogs_increment [of "str ''AB''" 0 Null "[]"]
    by (simp add: str_def isWhiteSpace_def)
  have longer: "displayLogs (Val (str ''ABCD'')) 2 =
      ([Log OutputHeader, Log (Text (str ''CD'')), Log OutputFooter], 4)"
    using displayLogs_increment [of "str ''ABCD''" 2 Null "[]"]
    by (simp add: str_def isWhiteSpace_def)
  have same: "displayLogs (Val (str ''AB'')) 2 = ([], 2)"
    using displayLogs_increment [of "str ''AB''" 2 Null "[]"]
    by (simp add: str_def)
  have mono: "(2::nat) \<le> foldl (\<lambda>n out. snd (displayLogs out n)) 2
      [Val (str ''ABCD''), Val (str ''AB'')]"
    using displayLogs_increment [of "[]" 2 Null "[Val (str ''ABCD''), Val (str ''AB'')]"]
    by blast
  from first longer same mono show ?thesis
    by blast
qed

text \<open>
  Claim C2 as written fails where the new suffix is whitespace only: with the cursor
  at 2 the log \<open>"AB "\<close> is strictly longer than the cursor, its suffix from the cursor
  on is \<open>" "\<close>, and nothing is displayed.
\<close>

theorem displayLogs_increment_counterexample:
  "2 < length (str ''AB '') \<and> drop 2 (str ''AB '') = str '' ''
   \<and> displayLogs (Val (str ''AB '')) 2 = ([], 3)"
  by (simp add: displayLogs_def str_def trim_def isWhiteSpace_def)

text \<open>
  Claim C8. Whenever the fetched log is longer than the cursor and the new suffix
  consists of whitespace only, nothing is displayed and the cursor still advances
  to the length of the log.
\<close>

theorem displayLogs_whitespace_suffix:
  assumes "c < length s" and "\<forall>x \<in> set (drop c s). isWhiteSpace x"
  shows "displayLogs (Val s) c = ([], length s)"
  using assms by (simp add: displayLogs_Val)

theorem displayLogs_whitespace_suffix_witness:
  "displayLogs (Val (str ''AB  '')) 2 = ([], 4)"
proof -
  have 1: "2 < length (str ''AB  '')"
    by (simp add: str_def)
  have 2: "\<forall>x \<in> set (drop 2 (str ''AB  '')). isWhiteSpace x"
    by (simp add: str_def isWhiteSpace_def)
  show ?thesis
    using displayLogs_whitespace_suffix [OF 1 2] by (simp add: str_def)
qed

section \<open>Configuration check\<close>







section \<open>Trigger phase\<close>

lemma validateEnvironment_ok:
  "missing cfg = [] \<Longrightarrow> validateEnvironment cfg = ([Log EnvValidated], None)"
  by (simp add: validateEnvironment_def)

lemma createDeployment_resolved:
  assumes "snd (makeForgeRequest POST_deployments r) = Inr (code, d)"
  shows "createDeployment r =
     (if code \<noteq> 202
      then ([Log Starting, Http POST_deployments, Err (CreateFailed (handleApiError code d))],
            Inl (handleApiError code d))
      else (case d of
              Val b \<Rightarrow> (case data b of
                  Val c \<Rightarrow> ([Log Starting, Http POST_deployments, Log (Created (id_js c))], Inr (id_js c))
                | _ \<Rightarrow> ([Log Starting, Http POST_deployments, Err (CreateFailed TypeError)], Inl TypeError))
            | _ \<Rightarrow> ([Log Starting, Http POST_deployments, Err (CreateFailed TypeError)], Inl TypeError)))"
  using assms
  by (auto simp: createDeployment_def makeForgeRequest_def bind_def read_prop_def
           split: js.splits)

lemma main_trigger_failed:
  assumes "missing cfg = []" and "createDeployment (trigger e) = (ev, Inl err)"
  shows "main cfg e = ([Log Title, Log Rule, Log EnvValidated] @ ev @ [Err RuleNL, Err (ActionFailed err)], Some 1)"
  using assms by (simp add: main_def validateEnvironment_ok)

lemma main_trigger_ok:
  assumes "missing cfg = []" and "createDeployment (trigger e) = (ev, Inr h)"
  shows "\<exists>rest. fst (main cfg e) = [Log Title, Log Rule, Log EnvValidated] @ ev @ [Log Monitoring] @ rest"
  using assms
  by (auto simp: main_def validateEnvironment_ok pollDeployment_def split: prod.splits option.splits settled.splits)

lemma unat_digit: "k < 10 \<Longrightarrow> unat (of_nat (48 + k) :: 16 word) = 48 + k"
proof -
  assume k: "k < 10"
  have "unat (of_nat (48 + k) :: 16 word) = (48 + k) mod 2 ^ LENGTH(16)"
    by (rule unat_of_nat)
  also have "\<dots> = 48 + k"
    using k by simp
  finally show ?thesis .
qed

lemma digits_decimal:
  "digits n \<noteq> []
   \<and> (\<forall>c \<in> set (digits n). 48 \<le> unat c \<and> unat c \<le> 57)
   \<and> foldl (\<lambda>a c. 10 * a + (unat c - 48)) 0 (digits n) = n
   \<and> (0 < n \<longrightarrow> unat (hd (digits n)) \<noteq> 48)"
proof (induction n rule: digits.induct)
  case (1 n)
  show ?case
  proof (cases "n < 10")
    case True
    then show ?thesis
      by (simp add: digits.simps [of n] unat_digit del: of_nat_add)
  next
    case False
    then have d: "digits n = digits (n div 10) @ [of_nat (48 + n mod 10)]"
      by (simp add: digits.simps [of n])
    have m: "n mod 10 < 10"
      by simp
    from False have pos: "0 < n div 10"
      by simp
    from "1.IH" [OF False] pos show ?thesis
      by (simp add: d unat_digit [OF m] del: of_nat_add)
  qed
qed

lemma handleApiError_table:
  "handleApiError code d =
     Error ((if code = 401 then str ''Authentication failed. Please check your FORGE_API_TOKEN.''
             else if code = 403
               then str ''Access forbidden. You do not have permission to perform this action.''
             else if code = 404
               then str ''Resource not found. Please check your organization, server, and site IDs.''
             else if code = 422 then str ''Unprocessable entity. Invalid request data.''
             else if code = 429 then str ''Rate limit exceeded. Please try again later.''
             else if code = 500 then str ''Forge server error. Please try again later.''
             else if code = 503 then str ''Forge is offline for maintenance.''
             else str ''API request failed with status '' @ digits code)
            @ (case d of
                 Val b \<Rightarrow> (case message b of
                              Val m \<Rightarrow> if m \<noteq> [] then str '' - '' @ m else []
                            | _ \<Rightarrow> [])
               | _ \<Rightarrow> []))"
  by (auto simp: handleApiError_def errorMessages_def or_empty_def read_opt_def Let_def
           split: js.splits)

lemma createDeployment_unparsable:
  "createDeployment (Reply code (Unparsable m)) =
     ([Log Starting, Http POST_deployments,
       Err (CreateFailed (Error (str ''Failed to parse JSON response: '' @ m)))],
      Inl (Error (str ''Failed to parse JSON response: '' @ m)))"
  by (simp add: createDeployment_def makeForgeRequest_def bind_def)

lemma createDeployment_not_202:
  assumes "code \<noteq> 202" and "\<forall>m. p \<noteq> Unparsable m"
  shows "createDeployment (Reply code p) =
     ([Log Starting, Http POST_deployments,
       Err (CreateFailed (handleApiError code (case p of Json b \<Rightarrow> Val b | _ \<Rightarrow> Null)))],
      Inl (handleApiError code (case p of Json b \<Rightarrow> Val b | _ \<Rightarrow> Null)))"
  using assms
  by (cases p) (simp_all add: createDeployment_def makeForgeRequest_def bind_def)

text \<open>
  Claim C5, as amended. Whenever the trigger request is answered with a status code
  other than 202, the process ends at once with exit code 1: the trace holds the
  one POST request, so the trigger is not retried, and nothing of the polling
  phase. When the body is empty or parses as JSON, the error is the one of the
  table of status codes (for 404 the resource-not-found message, for a code outside
  the table the generic message with the code in decimal), followed by the message
  of the payload when there is one. When the body does not parse as JSON, the error
  is the parse error and the status code is not looked at.
\<close>

theorem trigger_failure_is_fatal:
  assumes "missing cfg = []" and "trigger e = Reply code p" and "code \<noteq> 202"
  shows "(let classified =
             (if code = 401 then str ''Authentication failed. Please check your FORGE_API_TOKEN.''
              else if code = 403
                then str ''Access forbidden. You do not have permission to perform this action.''
              else if code = 404
                then str ''Resource not found. Please check your organization, server, and site IDs.''
              else if code = 422 then str ''Unprocessable entity. Invalid request data.''
              else if code = 429 then str ''Rate limit exceeded. Please try again later.''
              else if code = 500 then str ''Forge server error. Please try again later.''
              else if code = 503 then str ''Forge is offline for maintenance.''
              else str ''API request failed with status '' @ digits code);
              err =
             (case p of
                Unparsable m \<Rightarrow> Error (str ''Failed to parse JSON response: '' @ m)
              | Json b \<Rightarrow>
                  Error (classified @
                         (case message b of
                            Val m \<Rightarrow> if m \<noteq> [] then str '' - '' @ m else []
                          | _ \<Rightarrow> []))
              | _ \<Rightarrow> Error classified)
          in main cfg e =
               ([Log Title, Log Rule, Log EnvValidated, Log Starting, Http POST_deployments,
                 Err (CreateFailed err), Err RuleNL, Err (ActionFailed err)], Some 1))
         \<and> digits code \<noteq> []
         \<and> (\<forall>c \<in> set (digits code). 48 \<le> unat c \<and> unat c \<le> 57)
         \<and> foldl (\<lambda>a c. 10 * a + (unat c - 48)) 0 (digits code) = code
         \<and> (0 < code \<longrightarrow> unat (hd (digits code)) \<noteq> 48)"
proof -
  have m: "main cfg e =
      ([Log Title, Log Rule, Log EnvValidated, Log Starting, Http POST_deployments,
        Err (CreateFailed err), Err RuleNL, Err (ActionFailed err)], Some 1)"
    if "createDeployment (trigger e) =
          ([Log Starting, Http POST_deployments, Err (CreateFailed err)], Inl err)" for err
    using main_trigger_failed [OF assms(1) that] by simp
  have "?thesis" if "p = Unparsable x" for x
    using m [of "Error (str ''Failed to parse JSON response: '' @ x)"] that assms(2)
    by (simp add: createDeployment_unparsable digits_decimal Let_def)
  moreover have "?thesis" if np: "\<forall>x. p \<noteq> Unparsable x"
  proof -
    note c = createDeployment_not_202 [OF assms(3) np]
    from m [of "handleApiError code (case p of Json b \<Rightarrow> Val b | _ \<Rightarrow> Null)"] c assms(2)
    have "main cfg e =
      ([Log Title, Log Rule, Log EnvValidated, Log Starting, Http POST_deployments,
        Err (CreateFailed (handleApiError code (case p of Json b \<Rightarrow> Val b | _ \<Rightarrow> Null))),
        Err RuleNL,
        Err (ActionFailed (handleApiError code (case p of Json b \<Rightarrow> Val b | _ \<Rightarrow> Null)))],
       Some 1)"
      by simp
    with np show ?thesis
      by (cases p) (simp_all add: handleApiError_table digits_decimal Let_def)
  qed
  ultimately show ?thesis
    by blast
qed

theorem trigger_failure_is_fatal_witness:
  "main \<lparr>FORGE_API_TOKEN = Some (str ''t''), FORGE_ORGANIZATION = Some (str ''o''),
         FORGE_SERVER_ID = Some (str ''1''), FORGE_SITE_ID = Some (str ''2'')\<rparr>
        \<lparr>trigger = Reply 404 (Json \<lparr>data = Undefined, message = Val (str ''Not Found'')\<rparr>),
         startTime = 0, ticks = []\<rparr> =
     ([Log Title, Log Rule, Log EnvValidated, Log Starting, Http POST_deployments,
       Err (CreateFailed (Error (str ''Resource not found. Please check your organization, server, and site IDs. - Not Found''))),
       Err RuleNL,
       Err (ActionFailed (Error (str ''Resource not found. Please check your organization, server, and site IDs. - Not Found'')))],
      Some 1)
   \<and> main \<lparr>FORGE_API_TOKEN = Some (str ''t''), FORGE_ORGANIZATION = Some (str ''o''),
         FORGE_SERVER_ID = Some (str ''1''), FORGE_SITE_ID = Some (str ''2'')\<rparr>
        \<lparr>trigger = Reply 418 Empty, startTime = 0, ticks = []\<rparr> =
     ([Log Title, Log Rule, Log EnvValidated, Log Starting, Http POST_deployments,
       Err (CreateFailed (Error (str ''API request failed with status 418''))),
       Err RuleNL,
       Err (ActionFailed (Error (str ''API request failed with status 418'')))],
      Some 1)
   \<and> main \<lparr>FORGE_API_TOKEN = Some (str ''t''), FORGE_ORGANIZATION = Some (str ''o''),
         FORGE_SERVER_ID = Some (str ''1''), FORGE_SITE_ID = Some (str ''2'')\<rparr>
        \<lparr>trigger = Reply 503 (Unparsable (str ''Unexpected token <'')),
         startTime = 0, ticks = []\<rparr> =
     ([Log Title, Log Rule, Log EnvValidated, Log Starting, Http POST_deployments,
       Err (CreateFailed (Error (str ''Failed to parse JSON response: Unexpected token <''))),
       Err RuleNL,
       Err (ActionFailed (Error (str ''Failed to parse JSON response: Unexpected token <'')))],
      Some 1)"
proof -
  let ?cfg = "\<lparr>FORGE_API_TOKEN = Some (str ''t''), FORGE_ORGANIZATION = Some (str ''o''),
         FORGE_SERVER_ID = Some (str ''1''), FORGE_SITE_ID = Some (str ''2'')\<rparr>"
  let ?e1 = "\<lparr>trigger = Reply 404 (Json \<lparr>data = Undefined :: created js,
                                         message = Val (str ''Not Found'')\<rparr>),
         startTime = 0, ticks = []\<rparr>"
  let ?e2 = "\<lparr>trigger = Reply 418 Empty :: created body reply, startTime = 0, ticks = []\<rparr>"
  let ?e3 = "\<lparr>trigger = Reply 503 (Unparsable (str ''Unexpected token <'')) :: created body reply,
         startTime = 0, ticks = []\<rparr>"
  have cfg: "missing ?cfg = []"
    by (simp add: missing_def required_def falsy_def)
  have d: "digits 418 = str ''418''"
    by (simp add: digits.simps str_def)
  have 1: "trigger ?e1 = Reply 404 (Json \<lparr>data = Undefined, message = Val (str ''Not Found'')\<rparr>)"
    and 2: "trigger ?e2 = Reply 418 Empty"
    and 3: "trigger ?e3 = Reply 503 (Unparsable (str ''Unexpected token <''))"
    by simp_all
  have n: "(404::nat) \<noteq> 202" "(418::nat) \<noteq> 202" "(503::nat) \<noteq> 202"
    by simp_all
  note a = trigger_failure_is_fatal [OF cfg 1 n(1), THEN conjunct1]
  note b = trigger_failure_is_fatal [OF cfg 2 n(2), THEN conjunct1]
  note c = trigger_failure_is_fatal [OF cfg 3 n(3), THEN conjunct1]
  from a have a': "main ?cfg ?e1 =
     ([Log Title, Log Rule, Log EnvValidated, Log Starting, Http POST_deployments,
       Err (CreateFailed (Error (str ''Resource not found. Please check your organization, server, and site IDs. - Not Found''))),
       Err RuleNL,
       Err (ActionFailed (Error (str ''Resource not found. Please check your organization, server, and site IDs. - Not Found'')))],
      Some 1)"
    by (simp add: Let_def str_append [symmetric])
  from b have b': "main ?cfg ?e2 =
     ([Log Title, Log Rule, Log EnvValidated, Log Starting, Http POST_deployments,
       Err (CreateFailed (Error (str ''API request failed with status 418''))),
       Err RuleNL,
       Err (ActionFailed (Error (str ''API request failed with status 418'')))],
      Some 1)"
    by (simp add: Let_def d str_append [symmetric])
  from c have c': "main ?cfg ?e3 =
     ([Log Title, Log Rule, Log EnvValidated, Log Starting, Http POST_deployments,
       Err (CreateFailed (Error (str ''Failed to parse JSON response: Unexpected token <''))),
       Err RuleNL,
       Err (ActionFailed (Error (str ''Failed to parse JSON response: Unexpected token <'')))],
      Some 1)"
    by (simp add: Let_def str_append [symmetric])
  from a' b' c' show ?thesis
    by blast
qed

text \<open>
  Claim C5 as written fails where the body does not parse: a 404 answered with a
  page that is not JSON ends the run with the parse error, not with the
  resource-not-found message of the table.
\<close>

theorem trigger_failure_is_fatal_counterexample:
  "main \<lparr>FORGE_API_TOKEN = Some (str ''t''), FORGE_ORGANIZATION = Some (str ''o''),
         FORGE_SERVER_ID = Some (str ''1''), FORGE_SITE_ID = Some (str ''2'')\<rparr>
        \<lparr>trigger = Reply 404 (Unparsable (str ''Unexpected token <'')),
         startTime = 0, ticks = []\<rparr> =
     ([Log Title, Log Rule, Log EnvValidated, Log Starting, Http POST_deployments,
       Err (CreateFailed (Error (str ''Failed to parse JSON response: Unexpected token <''))),
       Err RuleNL,
       Err (ActionFailed (Error (str ''Failed to parse JSON response: Unexpected token <'')))],
      Some 1)
   \<and> handleApiError 404 (Null :: created body js) =
       Error (str ''Resource not found. Please check your organization, server, and site IDs.'')
   \<and> Error (str ''Failed to parse JSON response: Unexpected token <'')
       \<noteq> handleApiError 404 (Null :: created body js)"
  by (simp add: main_def validateEnvironment_def missing_def required_def falsy_def
      createDeployment_def makeForgeRequest_def bind_def handleApiError_def errorMessages_def
      or_empty_def read_opt_def str_append [symmetric])

text \<open>
  Claim C7, as amended. When the trigger request resolves with 202 and the payload
  is empty, \<open>null\<close> or has no \<open>data\<close> member, reading the identifier throws a
  TypeError and the process ends with exit code 1 before polling; when \<open>data\<close> is
  there and has no \<open>id\<close>, \<open>createDeployment\<close> returns \<open>undefined\<close> as the handle
  and the run enters the polling phase.
\<close>

theorem trigger_202_without_identifier:
  assumes "missing cfg = []"
    and "snd (makeForgeRequest POST_deployments (trigger e)) = Inr (202, d)"
  shows "((\<forall>b. d \<noteq> Val b) \<or> (\<exists>b. d = Val b \<and> (\<forall>c. data b \<noteq> Val c)) \<longrightarrow>
            main cfg e =
              ([Log Title, Log Rule, Log EnvValidated, Log Starting, Http POST_deployments,
                Err (CreateFailed TypeError), Err RuleNL, Err (ActionFailed TypeError)], Some 1))
         \<and> ((\<exists>b c. d = Val b \<and> data b = Val c \<and> id_js c = Undefined) \<longrightarrow>
            createDeployment (trigger e) =
              ([Log Starting, Http POST_deployments, Log (Created Undefined)], Inr Undefined)
            \<and> (\<exists>rest. fst (main cfg e) =
                  [Log Title, Log Rule, Log EnvValidated, Log Starting, Http POST_deployments,
                   Log (Created Undefined), Log Monitoring] @ rest))"
proof (intro conjI impI)
  assume "(\<forall>b. d \<noteq> Val b) \<or> (\<exists>b. d = Val b \<and> (\<forall>c. data b \<noteq> Val c))"
  then have "createDeployment (trigger e) =
      ([Log Starting, Http POST_deployments, Err (CreateFailed TypeError)], Inl TypeError)"
    using createDeployment_resolved [OF assms(2)]
    by (auto split: js.splits)
  from main_trigger_failed [OF assms(1) this]
  show "main cfg e =
              ([Log Title, Log Rule, Log EnvValidated, Log Starting, Http POST_deployments,
                Err (CreateFailed TypeError), Err RuleNL, Err (ActionFailed TypeError)], Some 1)"
    by simp
next
  assume a: "\<exists>b c. d = Val b \<and> data b = Val c \<and> id_js c = Undefined"
  then show c: "createDeployment (trigger e) =
      ([Log Starting, Http POST_deployments, Log (Created Undefined)], Inr Undefined)"
    using createDeployment_resolved [OF assms(2)]
    by auto
  from main_trigger_ok [OF assms(1) c]
  show "\<exists>rest. fst (main cfg e) =
                  [Log Title, Log Rule, Log EnvValidated, Log Starting, Http POST_deployments,
                   Log (Created Undefined), Log Monitoring] @ rest"
    by simp
qed

theorem trigger_202_without_identifier_witness:
  "createDeployment (Reply 202 (Json \<lparr>data = Val \<lparr>id_js = Undefined\<rparr>, message = Undefined\<rparr>)) =
     ([Log Starting, Http POST_deployments, Log (Created Undefined)], Inr Undefined)
   \<and> main \<lparr>FORGE_API_TOKEN = Some (str ''t''), FORGE_ORGANIZATION = Some (str ''o''),
           FORGE_SERVER_ID = Some (str ''1''), FORGE_SITE_ID = Some (str ''2'')\<rparr>
          \<lparr>trigger = Reply 202 Empty, startTime = 0, ticks = []\<rparr> =
       ([Log Title, Log Rule, Log EnvValidated, Log Starting, Http POST_deployments,
         Err (CreateFailed TypeError), Err RuleNL, Err (ActionFailed TypeError)], Some 1)"
proof -
  let ?cfg = "\<lparr>FORGE_API_TOKEN = Some (str ''t''), FORGE_ORGANIZATION = Some (str ''o''),
           FORGE_SERVER_ID = Some (str ''1''), FORGE_SITE_ID = Some (str ''2'')\<rparr>"
  let ?b = "\<lparr>data = Val \<lparr>id_js = Undefined\<rparr>, message = Undefined\<rparr>"
  let ?e1 = "\<lparr>trigger = Reply 202 (Json ?b), startTime = 0, ticks = []\<rparr>"
  let ?e2 = "\<lparr>trigger = Reply 202 Empty :: created body reply, startTime = 0, ticks = []\<rparr>"
  have cfg: "missing ?cfg = []"
    by (simp add: missing_def required_def falsy_def)
  have r1: "snd (makeForgeRequest POST_deployments (trigger ?e1)) = Inr (202, Val ?b)"
    by (simp add: makeForgeRequest_def)
  have r2: "snd (makeForgeRequest POST_deployments (trigger ?e2)) = Inr (202, Null)"
    by (simp add: makeForgeRequest_def)
  have 1: "createDeployment (Reply 202 (Json ?b)) =
     ([Log Starting, Http POST_deployments, Log (Created Undefined)], Inr Undefined)"
    using trigger_202_without_identifier [OF cfg r1] by simp
  have 2: "main ?cfg ?e2 =
       ([Log Title, Log Rule, Log EnvValidated, Log Starting, Http POST_deployments,
         Err (CreateFailed TypeError), Err RuleNL, Err (ActionFailed TypeError)], Some 1)"
    using trigger_202_without_identifier [OF cfg r2] by simp
  from 1 2 show ?thesis
    by blast
qed

text \<open>
  Claim C7 as written fails: a 202 whose payload is \<open>{data: {}}\<close> does not fail the
  trigger; the run goes on to poll with the handle \<open>undefined\<close>.
\<close>

theorem trigger_202_without_identifier_counterexample:
  "main \<lparr>FORGE_API_TOKEN = Some (str ''t''), FORGE_ORGANIZATION = Some (str ''o''),
         FORGE_SERVER_ID = Some (str ''1''), FORGE_SITE_ID = Some (str ''2'')\<rparr>
        \<lparr>trigger = Reply 202 (Json \<lparr>data = Val \<lparr>id_js = Undefined\<rparr>, message = Undefined\<rparr>),
         startTime = 0,
         ticks = [\<lparr>now = 10000, statusReply = status_200 (str ''deploying''),
                   outputReply = log_200 [], finalReply = log_200 []\<rparr>]\<rparr> =
     ([Log Title, Log Rule, Log EnvValidated, Log Starting, Http POST_deployments,
       Log (Created Undefined), Log Monitoring, Http (GET_deployment Undefined),
       Log (StatusIs (Val (str ''deploying''))), Http (GET_log Undefined)], None)"
  by (simp add: main_def validateEnvironment_def missing_def required_def falsy_def
      createDeployment_def makeForgeRequest_def bind_def read_prop_def read_opt_def
      pollDeployment_def cycle_def TIMEOUT_def getDeploymentStatus_def getDeploymentOutput_def
      status_200_def log_200_def or_empty_def truthy_def Let_def)

section \<open>Polling phase\<close>

lemma getDeploymentOutput_events: "fst (getDeploymentOutput h r) = [Http (GET_log h)]"
  by (simp add: getDeploymentOutput_def makeForgeRequest_def Let_def split: sum.splits)

lemma getDeploymentStatus_Val:
  "snd (getDeploymentStatus h r) = Val d \<Longrightarrow>
   getDeploymentStatus h r = ([Http (GET_deployment h)], Val d)"
  by (simp add: getDeploymentStatus_def makeForgeRequest_def Let_def split: sum.splits js.splits)

lemma getDeploymentStatus_not_Val:
  "\<forall>d. snd (getDeploymentStatus h r) \<noteq> Val d \<Longrightarrow>
   \<exists>ev. getDeploymentStatus h r = (Http (GET_deployment h) # ev, snd (getDeploymentStatus h r))
        \<and> notifications ev = [] \<and> requests ev = []"
  by (auto simp: getDeploymentStatus_def makeForgeRequest_def Let_def split: sum.splits js.splits)

lemma getDeploymentStatus_failed:
  assumes "(\<exists>m. r = Failure m) \<or> (\<exists>code m. r = Reply code (Unparsable m))
           \<or> (\<exists>code p. r = Reply code p \<and> code \<noteq> 200)"
  shows "\<exists>err. getDeploymentStatus h r =
           ([Http (GET_deployment h), Err (FetchStatusFailed err)], Null)"
  using assms
  by (auto simp: getDeploymentStatus_def makeForgeRequest_def Let_def bind_def
           split: parsed.splits)

lemma cycle_timeout:
  "now t - start > TIMEOUT \<Longrightarrow>
   cycle start h st t = ([Err TimedOut], st, Some (Rejected (Error (str ''Deployment timeout''))))"
  by (simp add: cycle_def)

lemma cycle_skipped:
  assumes "\<not> now t - start > TIMEOUT"
    and "getDeploymentStatus h (statusReply t) = (ev, v)" and "\<forall>d. v \<noteq> Val d"
  shows "cycle start h st t = (ev, st, None)"
  using assms by (cases v) (simp_all add: cycle_def)

lemma cycle_fetched:
  assumes "\<not> now t - start > TIMEOUT"
    and "snd (getDeploymentStatus h (statusReply t)) = Val d"
  shows "cycle start h st t =
     (let s = status d;
          out = snd (getDeploymentOutput h (outputReply t));
          ev = [Http (GET_deployment h)]
               @ (if s \<noteq> lastStatus st then [Log (StatusIs s)] else [])
               @ [Http (GET_log h)]
               @ (if truthy out then fst (displayLogs out (lastDisplayedLength st)) else []);
          st' = st\<lparr>lastStatus := s,
                   lastDisplayedLength :=
                     (if truthy out then snd (displayLogs out (lastDisplayedLength st))
                      else lastDisplayedLength st)\<rparr>
      in if s = Val (str ''finished'') then (ev @ [Log Completed], st', Some (Resolved s out))
         else if s = Val (str ''failed'') \<or> s = Val (str ''failed-build'')
         then (let final = snd (getDeploymentOutput h (finalReply t))
               in (ev @ [Http (GET_log h)]
                      @ (if truthy final
                         then [Err FinalHeader, Err (Text (template final)), Err FinalFooter]
                         else []),
                   st', Some (Rejected (Error (str ''Deployment '' @ template s)))))
         else if s = Val (str ''cancelled'')
         then (ev, st', Some (Rejected (Error (str ''Deployment was cancelled''))))
         else (ev, st', None))"
proof -
  obtain out where o: "getDeploymentOutput h (outputReply t) = ([Http (GET_log h)], out)"
    using getDeploymentOutput_events [of h "outputReply t"]
    by (cases "getDeploymentOutput h (outputReply t)") simp
  obtain final where f: "getDeploymentOutput h (finalReply t) = ([Http (GET_log h)], final)"
    using getDeploymentOutput_events [of h "finalReply t"]
    by (cases "getDeploymentOutput h (finalReply t)") simp
  show ?thesis
    using assms(1) getDeploymentStatus_Val [OF assms(2)]
    by (simp add: cycle_def o f Let_def split: prod.splits)
qed

lemma pollLoop_append:
  "pollLoop start h st (xs @ ys) =
     (case pollLoop start h st xs of
        (ev, st', Some r) \<Rightarrow> (ev, st', Some r)
      | (ev, st', None) \<Rightarrow>
          (let (ev', st'', r) = pollLoop start h st' ys in (ev @ ev', st'', r)))"
proof (induction xs arbitrary: st)
  case Nil
  show ?case by simp
next
  case (Cons x xs)
  show ?case
    by (simp add: Cons.IH split: prod.splits option.splits)
qed

lemma pollLoop_pending_then:
  assumes "pollLoop start h st0 pre = (ev0, st, None)"
    and "cycle start h st t = (ev, st', Some r)"
  shows "pollLoop start h st0 (pre @ t # ts) = (ev0 @ ev, st', Some r)"
  using assms by (simp add: pollLoop_append)

lemma requests_append: "requests (a @ b) = requests a @ requests b"
  by (induction a rule: requests.induct) simp_all

lemma notifications_append: "notifications (a @ b) = notifications a @ notifications b"
  by (induction a rule: notifications.induct) simp_all

lemma displayLogs_events:
  "requests (fst (displayLogs out c)) = [] \<and> notifications (fst (displayLogs out c)) = []
   \<and> (\<forall>m. Err m \<notin> set (fst (displayLogs out c)))"
  by (cases out) (simp_all add: displayLogs_def Let_def)

lemma cycle_terminal_failure:
  assumes "\<not> now t - start > TIMEOUT"
    and "snd (getDeploymentStatus h (statusReply t)) = Val d"
    and "status d = Val (str ''failed'') \<or> status d = Val (str ''failed-build'')"
  shows "\<exists>ev st'. cycle start h st t =
           (ev @ Http (GET_log h) #
              (case snd (getDeploymentOutput h (finalReply t)) of
                 Val s \<Rightarrow> if s \<noteq> [] then [Err FinalHeader, Err (Text s), Err FinalFooter] else []
               | _ \<Rightarrow> []),
            st', Some (Rejected (Error (str ''Deployment '' @ template (status d)))))
         \<and> requests ev = [GET_deployment h, GET_log h] \<and> (\<forall>m. Err m \<notin> set ev)"
proof -
  let ?out = "snd (getDeploymentOutput h (outputReply t))"
  let ?ev = "[Http (GET_deployment h)]
               @ (if status d \<noteq> lastStatus st then [Log (StatusIs (status d))] else [])
               @ [Http (GET_log h)]
               @ (if truthy ?out then fst (displayLogs ?out (lastDisplayedLength st)) else [])"
  have r: "requests ?ev = [GET_deployment h, GET_log h]"
    by (simp add: requests_append displayLogs_events)
  have e: "\<forall>m. Err m \<notin> set ?ev"
    by (simp add: displayLogs_events)
  have dump: "(if truthy v then [Err FinalHeader, Err (Text (template v)), Err FinalFooter] else [])
        = (case v of Val s \<Rightarrow> if s \<noteq> [] then [Err FinalHeader, Err (Text s), Err FinalFooter] else []
               | _ \<Rightarrow> [])" for v
    by (cases v) (simp_all add: truthy_def template_def)
  have "cycle start h st t =
           (?ev @ Http (GET_log h) #
              (case snd (getDeploymentOutput h (finalReply t)) of
                 Val s \<Rightarrow> if s \<noteq> [] then [Err FinalHeader, Err (Text s), Err FinalFooter] else []
               | _ \<Rightarrow> []),
            st\<lparr>lastStatus := status d,
                   lastDisplayedLength :=
                     (if truthy ?out then snd (displayLogs ?out (lastDisplayedLength st))
                      else lastDisplayedLength st)\<rparr>,
            Some (Rejected (Error (str ''Deployment '' @ template (status d)))))"
    using assms(3) by (auto simp: cycle_fetched [OF assms(1,2)] Let_def dump)
  with r e show ?thesis
    by blast
qed

lemma cycle_cancelled:
  assumes "\<not> now t - start > TIMEOUT"
    and "snd (getDeploymentStatus h (statusReply t)) = Val d"
    and "status d = Val (str ''cancelled'')"
  shows "\<exists>ev st'. cycle start h st t =
           (ev, st', Some (Rejected (Error (str ''Deployment was cancelled''))))
         \<and> requests ev = [GET_deployment h, GET_log h] \<and> (\<forall>m. Err m \<notin> set ev)"
proof -
  let ?out = "snd (getDeploymentOutput h (outputReply t))"
  let ?ev = "[Http (GET_deployment h)]
               @ (if status d \<noteq> lastStatus st then [Log (StatusIs (status d))] else [])
               @ [Http (GET_log h)]
               @ (if truthy ?out then fst (displayLogs ?out (lastDisplayedLength st)) else [])"
  have r: "requests ?ev = [GET_deployment h, GET_log h]"
    by (simp add: requests_append displayLogs_events)
  have e: "\<forall>m. Err m \<notin> set ?ev"
    by (simp add: displayLogs_events)
  have "cycle start h st t =
           (?ev,
            st\<lparr>lastStatus := status d,
                   lastDisplayedLength :=
                     (if truthy ?out then snd (displayLogs ?out (lastDisplayedLength st))
                      else lastDisplayedLength st)\<rparr>,
            Some (Rejected (Error (str ''Deployment was cancelled''))))"
    using assms(3) by (simp add: cycle_fetched [OF assms(1,2)] Let_def)
  with r e show ?thesis
    by blast
qed

lemma getDeploymentStatus_200:
  "getDeploymentStatus h (status_200 s) = ([Http (GET_deployment h)], Val \<lparr>status = Val s\<rparr>)"
  by (simp add: getDeploymentStatus_def makeForgeRequest_def status_200_def bind_def read_prop_def)

lemma getDeploymentOutput_200:
  "getDeploymentOutput h (log_200 l) = ([Http (GET_log h)], Val l)"
  by (simp add: getDeploymentOutput_def makeForgeRequest_def log_200_def bind_def read_prop_def
      read_opt_def or_empty_def)

lemmas run_simps = cycle_def getDeploymentStatus_200 getDeploymentOutput_200 tick_at_def
  TIMEOUT_def Let_def truthy_def displayLogs_Val template_def str_def isWhiteSpace_def

text \<open>
  A run of the whole action: valid configuration, a 202 with the handle 7, then the
  statuses \<open>deploying\<close> and \<open>finished\<close> with a growing log. The process exits
  with code 0.
\<close>

lemma main_success_example:
  "main \<lparr>FORGE_API_TOKEN = Some (str ''t''), FORGE_ORGANIZATION = Some (str ''o''),
         FORGE_SERVER_ID = Some (str ''1''), FORGE_SITE_ID = Some (str ''2'')\<rparr>
        \<lparr>trigger = created_202 (IdNum 7), startTime = 0,
         ticks = [tick_at 10000 (str ''deploying'') (str ''AB''),
                  tick_at 20000 (str ''finished'') (str ''ABCD'')]\<rparr> =
     ([Log Title, Log Rule, Log EnvValidated, Log Starting, Http POST_deployments,
       Log (Created (Val (IdNum 7))), Log Monitoring,
       Http (GET_deployment (Val (IdNum 7))), Log (StatusIs (Val (str ''deploying''))),
       Http (GET_log (Val (IdNum 7))),
       Log OutputHeader, Log (Text (str ''AB'')), Log OutputFooter,
       Http (GET_deployment (Val (IdNum 7))), Log (StatusIs (Val (str ''finished''))),
       Http (GET_log (Val (IdNum 7))),
       Log OutputHeader, Log (Text (str ''CD'')), Log OutputFooter,
       Log Completed, Log RuleNL, Log ActionOk], Some 0)"
  by (simp add: main_def validateEnvironment_def missing_def required_def falsy_def
      createDeployment_def makeForgeRequest_def created_202_def bind_def read_prop_def
      pollDeployment_def run_simps)

subsection \<open>Timeout\<close>

text \<open>
  Claim C3. In every cycle the elapsed time since the start of the session is
  compared with the ceiling of 600 seconds before anything else: when it exceeds the
  ceiling the cycle issues no request, prints the timeout message and rejects with
  the timeout error, and the loop ends there, whatever the platform would have
  answered in that cycle or in any later one.
\<close>

theorem timeout_checked_first:
  assumes "now t - start > TIMEOUT" and "pollLoop start h st0 pre = (ev0, st, None)"
  shows "TIMEOUT = 600 * 1000
         \<and> cycle start h st t =
           ([Err TimedOut], st, Some (Rejected (Error (str ''Deployment timeout''))))
         \<and> requests (fst (cycle start h st t)) = []
         \<and> pollLoop start h st0 (pre @ t # ts) =
           (ev0 @ [Err TimedOut], st, Some (Rejected (Error (str ''Deployment timeout''))))"
proof -
  have c: "cycle start h st t =
           ([Err TimedOut], st, Some (Rejected (Error (str ''Deployment timeout''))))"
    using assms(1) by (rule cycle_timeout)
  have r: "requests (fst (cycle start h st t)) = []"
    by (simp add: c)
  from pollLoop_pending_then [OF assms(2) c] c r show ?thesis
    by (simp add: TIMEOUT_def)
qed

theorem timeout_checked_first_witness:
  "pollLoop 0 (Val (IdNum 7)) \<lparr>lastDisplayedLength = 0, lastStatus = Val []\<rparr>
     [tick_at 600000 (str ''deploying'') [], tick_at 600001 (str ''deploying'') [],
      tick_at 610000 (str ''finished'') []] =
   ([Http (GET_deployment (Val (IdNum 7))), Log (StatusIs (Val (str ''deploying''))),
     Http (GET_log (Val (IdNum 7))), Err TimedOut],
    \<lparr>lastDisplayedLength = 0, lastStatus = Val (str ''deploying'')\<rparr>,
    Some (Rejected (Error (str ''Deployment timeout''))))"
proof -
  have 1: "now (tick_at 600001 (str ''deploying'') []) - 0 > TIMEOUT"
    by (simp add: tick_at_def TIMEOUT_def)
  have 2: "pollLoop 0 (Val (IdNum 7)) \<lparr>lastDisplayedLength = 0, lastStatus = Val []\<rparr>
             [tick_at 600000 (str ''deploying'') []] =
           ([Http (GET_deployment (Val (IdNum 7))), Log (StatusIs (Val (str ''deploying''))),
             Http (GET_log (Val (IdNum 7)))],
            \<lparr>lastDisplayedLength = 0, lastStatus = Val (str ''deploying'')\<rparr>, None)"
    by (simp add: run_simps)
  note timeout_checked_first [OF 1 2, of "[tick_at 610000 (str ''finished'') []]"]
  from this [THEN conjunct2, THEN conjunct2, THEN conjunct2]
  show ?thesis
    by simp
qed

subsection \<open>Transient failures of the status fetch\<close>

text \<open>
  Claim C4. When the status fetch of a cycle fails (transport error, body that does
  not parse, or a status code other than 200), the cycle prints a warning, leaves the
  state as it was and does not settle the promise; the loop goes on with the next
  timer firing from the same state.
\<close>

theorem status_fetch_failure_skips_cycle:
  assumes "\<not> now t - start > TIMEOUT"
    and "(\<exists>m. statusReply t = Failure m)
         \<or> (\<exists>code m. statusReply t = Reply code (Unparsable m))
         \<or> (\<exists>code p. statusReply t = Reply code p \<and> code \<noteq> 200)"
  shows "(\<exists>err. fst (getDeploymentStatus h (statusReply t)) =
             [Http (GET_deployment h), Err (FetchStatusFailed err)])
         \<and> cycle start h st t = (fst (getDeploymentStatus h (statusReply t)), st, None)
         \<and> pollLoop start h st (t # ts) =
             (let (ev, st', r) = pollLoop start h st ts
              in (fst (getDeploymentStatus h (statusReply t)) @ ev, st', r))"
proof -
  from getDeploymentStatus_failed [OF assms(2)]
  obtain err where g: "getDeploymentStatus h (statusReply t) =
      ([Http (GET_deployment h), Err (FetchStatusFailed err)], Null)"
    by blast
  have c: "cycle start h st t = (fst (getDeploymentStatus h (statusReply t)), st, None)"
    using cycle_skipped [OF assms(1) g] by (simp add: g)
  then have "pollLoop start h st (t # ts) =
             (let (ev, st', r) = pollLoop start h st ts
              in (fst (getDeploymentStatus h (statusReply t)) @ ev, st', r))"
    by simp
  with c g show ?thesis
    by simp
qed

theorem status_fetch_failure_skips_cycle_witness:
  "pollLoop 0 (Val (IdNum 7)) \<lparr>lastDisplayedLength = 0, lastStatus = Val []\<rparr>
     [\<lparr>now = 10000, statusReply = Reply 200 (Unparsable (str ''Unexpected token'')),
       outputReply = log_200 [], finalReply = log_200 []\<rparr>,
      tick_at 20000 (str ''finished'') (str ''ok'')] =
   ([Http (GET_deployment (Val (IdNum 7))),
     Err (FetchStatusFailed (Error (str ''Failed to parse JSON response: Unexpected token''))),
     Http (GET_deployment (Val (IdNum 7))), Log (StatusIs (Val (str ''finished''))),
     Http (GET_log (Val (IdNum 7))),
     Log OutputHeader, Log (Text (str ''ok'')), Log OutputFooter, Log Completed],
    \<lparr>lastDisplayedLength = 2, lastStatus = Val (str ''finished'')\<rparr>,
    Some (Resolved (Val (str ''finished'')) (Val (str ''ok''))))"
proof -
  let ?t = "\<lparr>now = 10000, statusReply = Reply 200 (Unparsable (str ''Unexpected token'')),
       outputReply = log_200 [], finalReply = log_200 []\<rparr>"
  have 1: "\<not> now ?t - 0 > TIMEOUT"
    by (simp add: TIMEOUT_def)
  have 2: "(\<exists>m. statusReply ?t = Failure m)
         \<or> (\<exists>code m. statusReply ?t = Reply code (Unparsable m))
         \<or> (\<exists>code p. statusReply ?t = Reply code p \<and> code \<noteq> 200)"
    by simp
  have 3: "fst (getDeploymentStatus (Val (IdNum 7)) (statusReply ?t)) =
      [Http (GET_deployment (Val (IdNum 7))),
       Err (FetchStatusFailed (Error (str ''Failed to parse JSON response: Unexpected token'')))]"
    by (simp add: getDeploymentStatus_def makeForgeRequest_def bind_def str_append [symmetric])
  have 4: "pollLoop 0 (Val (IdNum 7)) \<lparr>lastDisplayedLength = 0, lastStatus = Val []\<rparr>
      [tick_at 20000 (str ''finished'') (str ''ok'')] =
    ([Http (GET_deployment (Val (IdNum 7))), Log (StatusIs (Val (str ''finished''))),
     Http (GET_log (Val (IdNum 7))),
     Log OutputHeader, Log (Text (str ''ok'')), Log OutputFooter, Log Completed],
    \<lparr>lastDisplayedLength = 2, lastStatus = Val (str ''finished'')\<rparr>,
    Some (Resolved (Val (str ''finished'')) (Val (str ''ok''))))"
    by (simp add: run_simps)
  from status_fetch_failure_skips_cycle [OF 1 2, of "Val (IdNum 7)"
      "\<lparr>lastDisplayedLength = 0, lastStatus = Val []\<rparr>"
      "[tick_at 20000 (str ''finished'') (str ''ok'')]"]
  have "pollLoop 0 (Val (IdNum 7)) \<lparr>lastDisplayedLength = 0, lastStatus = Val []\<rparr>
      [?t, tick_at 20000 (str ''finished'') (str ''ok'')] =
      (let (ev, st', r) = pollLoop 0 (Val (IdNum 7)) \<lparr>lastDisplayedLength = 0, lastStatus = Val []\<rparr>
            [tick_at 20000 (str ''finished'') (str ''ok'')]
       in (fst (getDeploymentStatus (Val (IdNum 7)) (statusReply ?t)) @ ev, st', r))"
    by blast
  then show ?thesis
    by (simp only: 3 4) simp
qed

subsection \<open>Terminal failures\<close>

text \<open>
  Claim C1, as amended. When the last status of a session is \<open>failed\<close> or
  \<open>failed-build\<close>, the session rejects with the error \<open>Deployment <status>\<close>; before
  that it fetches the log once more and, when that fetch gives a non-empty log,
  prints it in full on the error stream, whatever was shown before. When the last
  status is \<open>cancelled\<close>, the session rejects with \<open>Deployment was cancelled\<close> after
  the two requests of the cycle, with no final log fetch and nothing on the error
  stream.
\<close>

theorem terminal_failure_rejects:
  assumes "\<not> now t - start > TIMEOUT"
    and "snd (getDeploymentStatus h (statusReply t)) = Val d"
    and "status d = Val s"
    and "pollLoop start h st0 pre = (ev0, st, None)"
  shows "(s = str ''failed'' \<or> s = str ''failed-build'' \<longrightarrow>
           (\<exists>ev st'. pollLoop start h st0 (pre @ t # ts) =
               (ev0 @ ev @ Http (GET_log h) #
                  (case snd (getDeploymentOutput h (finalReply t)) of
                     Val l \<Rightarrow> if l \<noteq> [] then [Err FinalHeader, Err (Text l), Err FinalFooter]
                              else []
                   | _ \<Rightarrow> []),
                st', Some (Rejected (Error (str ''Deployment '' @ s))))
             \<and> requests ev = [GET_deployment h, GET_log h] \<and> (\<forall>m. Err m \<notin> set ev)))
         \<and> (s = str ''cancelled'' \<longrightarrow>
           (\<exists>ev st'. pollLoop start h st0 (pre @ t # ts) =
               (ev0 @ ev, st', Some (Rejected (Error (str ''Deployment was cancelled''))))
             \<and> requests ev = [GET_deployment h, GET_log h] \<and> (\<forall>m. Err m \<notin> set ev)))"
proof (intro conjI impI)
  assume "s = str ''failed'' \<or> s = str ''failed-build''"
  then have "status d = Val (str ''failed'') \<or> status d = Val (str ''failed-build'')"
    using assms(3) by simp
  from cycle_terminal_failure [OF assms(1,2) this, of st]
  obtain ev st' where c: "cycle start h st t =
           (ev @ Http (GET_log h) #
              (case snd (getDeploymentOutput h (finalReply t)) of
                 Val l \<Rightarrow> if l \<noteq> [] then [Err FinalHeader, Err (Text l), Err FinalFooter] else []
               | _ \<Rightarrow> []),
            st', Some (Rejected (Error (str ''Deployment '' @ s))))"
    and r: "requests ev = [GET_deployment h, GET_log h]" and e: "\<forall>m. Err m \<notin> set ev"
    using assms(3) by (auto simp: template_def)
  from pollLoop_pending_then [OF assms(4) c] r e
  show "\<exists>ev st'. pollLoop start h st0 (pre @ t # ts) =
               (ev0 @ ev @ Http (GET_log h) #
                  (case snd (getDeploymentOutput h (finalReply t)) of
                     Val l \<Rightarrow> if l \<noteq> [] then [Err FinalHeader, Err (Text l), Err FinalFooter]
                              else []
                   | _ \<Rightarrow> []),
                st', Some (Rejected (Error (str ''Deployment '' @ s))))
             \<and> requests ev = [GET_deployment h, GET_log h] \<and> (\<forall>m. Err m \<notin> set ev)"
    by blast
next
  assume "s = str ''cancelled''"
  then have "status d = Val (str ''cancelled'')"
    using assms(3) by simp
  from cycle_cancelled [OF assms(1,2) this, of st]
  obtain ev st' where c: "cycle start h st t =
           (ev, st', Some (Rejected (Error (str ''Deployment was cancelled''))))"
    and r: "requests ev = [GET_deployment h, GET_log h]" and e: "\<forall>m. Err m \<notin> set ev"
    by blast
  from pollLoop_pending_then [OF assms(4) c] r e
  show "\<exists>ev st'. pollLoop start h st0 (pre @ t # ts) =
               (ev0 @ ev, st', Some (Rejected (Error (str ''Deployment was cancelled''))))
             \<and> requests ev = [GET_deployment h, GET_log h] \<and> (\<forall>m. Err m \<notin> set ev)"
    by blast
qed

theorem terminal_failure_rejects_witness:
  "\<exists>ev st'. pollLoop 0 (Val (IdNum 7)) \<lparr>lastDisplayedLength = 0, lastStatus = Val []\<rparr>
       [tick_at 10000 (str ''deploying'') (str ''AB''),
        tick_at 20000 (str ''failed'') (str ''ABCD'')] =
     ([Http (GET_deployment (Val (IdNum 7))), Log (StatusIs (Val (str ''deploying''))),
       Http (GET_log (Val (IdNum 7))),
       Log OutputHeader, Log (Text (str ''AB'')), Log OutputFooter]
      @ ev
      @ [Http (GET_log (Val (IdNum 7))),
         Err FinalHeader, Err (Text (str ''ABCD'')), Err FinalFooter],
      st', Some (Rejected (Error (str ''Deployment failed''))))
    \<and> requests ev = [GET_deployment (Val (IdNum 7)), GET_log (Val (IdNum 7))]
    \<and> (\<forall>m. Err m \<notin> set ev)"
proof -
  let ?h = "Val (IdNum 7)"
  let ?t = "tick_at 20000 (str ''failed'') (str ''ABCD'')"
  have 1: "\<not> now ?t - 0 > TIMEOUT"
    by (simp add: tick_at_def TIMEOUT_def)
  have 2: "snd (getDeploymentStatus ?h (statusReply ?t)) = Val \<lparr>status = Val (str ''failed'')\<rparr>"
    by (simp add: tick_at_def getDeploymentStatus_200)
  have 3: "status \<lparr>status = Val (str ''failed'')\<rparr> = Val (str ''failed'')"
    by simp
  have 4: "pollLoop 0 ?h \<lparr>lastDisplayedLength = 0, lastStatus = Val []\<rparr>
             [tick_at 10000 (str ''deploying'') (str ''AB'')] =
           ([Http (GET_deployment ?h), Log (StatusIs (Val (str ''deploying''))),
             Http (GET_log ?h), Log OutputHeader, Log (Text (str ''AB'')), Log OutputFooter],
            \<lparr>lastDisplayedLength = 2, lastStatus = Val (str ''deploying'')\<rparr>, None)"
    by (simp add: run_simps)
  have 5: "snd (getDeploymentOutput ?h (finalReply ?t)) = Val (str ''ABCD'')"
    by (simp add: tick_at_def getDeploymentOutput_200)
  from terminal_failure_rejects [OF 1 2 3 4, of "[]"]
  show ?thesis
    by (simp add: 5 str_append [symmetric])
qed

text \<open>
  Claim C1 as written fails for \<open>cancelled\<close>: the session rejects after the status
  request and the log request of the cycle; there is no final log fetch and no dump
  of the log.
\<close>

theorem terminal_failure_rejects_counterexample:
  "pollDeployment 0 (Val (IdNum 7)) [tick_at 10000 (str ''cancelled'') (str ''boom'')] =
     ([Log Monitoring, Http (GET_deployment (Val (IdNum 7))),
       Log (StatusIs (Val (str ''cancelled''))), Http (GET_log (Val (IdNum 7))),
       Log OutputHeader, Log (Text (str ''boom'')), Log OutputFooter],
      Some (Rejected (Error (str ''Deployment was cancelled''))))"
  by (simp add: pollDeployment_def run_simps)

text \<open>
  Claim C10. After the status \<open>failed\<close> or \<open>failed-build\<close>, whatever the final log
  request answers, the session rejects with the error naming that status; when the
  final fetch fails or gives no content, the cycle ends with that request and
  prints no dump.
\<close>

theorem final_fetch_failure_keeps_outcome:
  assumes "\<not> now t - start > TIMEOUT"
    and "snd (getDeploymentStatus h (statusReply t)) = Val d"
    and "status d = Val s"
    and "s = str ''failed'' \<or> s = str ''failed-build''"
    and "pollLoop start h st0 pre = (ev0, st, None)"
  shows "snd (snd (pollLoop start h st0 (pre @ t\<lparr>finalReply := r\<rparr> # ts))) =
           Some (Rejected (Error (str ''Deployment '' @ s)))
         \<and> (\<not> truthy (snd (getDeploymentOutput h r)) \<longrightarrow>
            (\<exists>ev st'. pollLoop start h st0 (pre @ t\<lparr>finalReply := r\<rparr> # ts) =
               (ev0 @ ev @ [Http (GET_log h)], st',
                Some (Rejected (Error (str ''Deployment '' @ s))))
             \<and> (\<forall>m. Err m \<notin> set ev)))"
proof -
  let ?t = "t\<lparr>finalReply := r\<rparr>"
  have 1: "\<not> now ?t - start > TIMEOUT"
    using assms(1) by simp
  have 2: "snd (getDeploymentStatus h (statusReply ?t)) = Val d"
    using assms(2) by simp
  have 3: "status d = Val (str ''failed'') \<or> status d = Val (str ''failed-build'')"
    using assms(3,4) by simp
  from cycle_terminal_failure [OF 1 2 3, of st]
  obtain ev st' where c: "cycle start h st ?t =
           (ev @ Http (GET_log h) #
              (case snd (getDeploymentOutput h r) of
                 Val l \<Rightarrow> if l \<noteq> [] then [Err FinalHeader, Err (Text l), Err FinalFooter] else []
               | _ \<Rightarrow> []),
            st', Some (Rejected (Error (str ''Deployment '' @ s))))"
    and e: "\<forall>m. Err m \<notin> set ev"
    using assms(3) by (auto simp: template_def)
  note p = pollLoop_pending_then [OF assms(5) c, of ts]
  have a: "snd (snd (pollLoop start h st0 (pre @ ?t # ts))) =
           Some (Rejected (Error (str ''Deployment '' @ s)))"
    by (simp add: p)
  have b: "\<not> truthy (snd (getDeploymentOutput h r)) \<longrightarrow>
            (\<exists>ev st'. pollLoop start h st0 (pre @ ?t # ts) =
               (ev0 @ ev @ [Http (GET_log h)], st',
                Some (Rejected (Error (str ''Deployment '' @ s))))
             \<and> (\<forall>m. Err m \<notin> set ev))"
  proof
    assume "\<not> truthy (snd (getDeploymentOutput h r))"
    then have "(case snd (getDeploymentOutput h r) of
                 Val l \<Rightarrow> if l \<noteq> [] then [Err FinalHeader, Err (Text l), Err FinalFooter] else []
               | _ \<Rightarrow> []) = []"
      by (simp add: truthy_def split: js.splits)
    with p e show "\<exists>ev st'. pollLoop start h st0 (pre @ ?t # ts) =
               (ev0 @ ev @ [Http (GET_log h)], st',
                Some (Rejected (Error (str ''Deployment '' @ s))))
             \<and> (\<forall>m. Err m \<notin> set ev)"
      by auto
  qed
  from a b show ?thesis
    by blast
qed

theorem final_fetch_failure_keeps_outcome_witness:
  "snd (snd (pollLoop 0 (Val (IdNum 7)) \<lparr>lastDisplayedLength = 0, lastStatus = Val []\<rparr>
       [(tick_at 10000 (str ''failed-build'') (str ''AB''))
          \<lparr>finalReply := Failure (str ''ECONNRESET'')\<rparr>])) =
     Some (Rejected (Error (str ''Deployment failed-build'')))
   \<and> (\<exists>ev st'. pollLoop 0 (Val (IdNum 7)) \<lparr>lastDisplayedLength = 0, lastStatus = Val []\<rparr>
       [(tick_at 10000 (str ''failed-build'') (str ''AB''))
          \<lparr>finalReply := Failure (str ''ECONNRESET'')\<rparr>] =
       (ev @ [Http (GET_log (Val (IdNum 7)))], st',
        Some (Rejected (Error (str ''Deployment failed-build''))))
      \<and> (\<forall>m. Err m \<notin> set ev))"
proof -
  let ?h = "Val (IdNum 7)"
  let ?t = "tick_at 10000 (str ''failed-build'') (str ''AB'')"
  have 1: "\<not> now ?t - 0 > TIMEOUT"
    by (simp add: tick_at_def TIMEOUT_def)
  have 2: "snd (getDeploymentStatus ?h (statusReply ?t)) =
      Val \<lparr>status = Val (str ''failed-build'')\<rparr>"
    by (simp add: tick_at_def getDeploymentStatus_200)
  have 3: "status \<lparr>status = Val (str ''failed-build'')\<rparr> = Val (str ''failed-build'')"
    by simp
  have 4: "str ''failed-build'' = str ''failed'' \<or> str ''failed-build'' = str ''failed-build''"
    by simp
  have 5: "pollLoop 0 ?h \<lparr>lastDisplayedLength = 0, lastStatus = Val []\<rparr> [] =
      ([], \<lparr>lastDisplayedLength = 0, lastStatus = Val []\<rparr>, None)"
    by simp
  have 6: "\<not> truthy (snd (getDeploymentOutput ?h (Failure (str ''ECONNRESET''))))"
    by (simp add: getDeploymentOutput_def makeForgeRequest_def bind_def truthy_def)
  from final_fetch_failure_keeps_outcome [OF 1 2 3 4 5, of "Failure (str ''ECONNRESET'')" "[]"] 6
  show ?thesis
    by (simp add: str_append [symmetric])
qed

subsection \<open>Status-change notifications\<close>

lemma cycle_notifications:
  "notifications (fst (cycle start h st t)) =
     (case fetched start h t of
        Some s \<Rightarrow> if s \<noteq> lastStatus st then [s] else []
      | None \<Rightarrow> [])
   \<and> lastStatus (fst (snd (cycle start h st t))) =
     (case fetched start h t of Some s \<Rightarrow> s | None \<Rightarrow> lastStatus st)"
proof (cases "now t - start > TIMEOUT")
  case True
  then show ?thesis
    by (simp add: cycle_timeout fetched_def)
next
  case False
  show ?thesis
  proof (cases "\<exists>d. snd (getDeploymentStatus h (statusReply t)) = Val d")
    case True
    then obtain d where d: "snd (getDeploymentStatus h (statusReply t)) = Val d"
      by blast
    have f: "fetched start h t = Some (status d)"
      using False d by (simp add: fetched_def)
    show ?thesis
      by (simp add: cycle_fetched [OF False d] f Let_def notifications_append displayLogs_events)
  next
    case no: False
    then have n: "\<forall>d. snd (getDeploymentStatus h (statusReply t)) \<noteq> Val d"
      by simp
    from getDeploymentStatus_not_Val [OF n]
    obtain ev where g: "getDeploymentStatus h (statusReply t) =
        (Http (GET_deployment h) # ev, snd (getDeploymentStatus h (statusReply t)))"
      and e: "notifications ev = []"
      by blast
    have f: "fetched start h t = None"
      using False n by (simp add: fetched_def split: js.splits)
    show ?thesis
      using cycle_skipped [OF False g n, of st] by (simp add: f e)
  qed
qed

lemma tl_remdups_adj_Cons:
  "tl (remdups_adj (x # y # xs)) =
     (if x = y then tl (remdups_adj (y # xs)) else y # tl (remdups_adj (y # xs)))"
  by (cases xs) auto

lemma pollLoop_notifications:
  "snd (snd (pollLoop start h st pre)) = None \<Longrightarrow>
   notifications (fst (pollLoop start h st (pre @ [t]))) =
     tl (remdups_adj (lastStatus st # List.map_filter (fetched start h) (pre @ [t])))"
proof (induction pre arbitrary: st)
  case Nil
  show ?case
    using cycle_notifications [of start h st t]
    by (cases "cycle start h st t")
       (auto simp: split: option.splits)
next
  case (Cons p ps)
  obtain ev st' r where c: "cycle start h st p = (ev, st', r)"
    by (cases "cycle start h st p") auto
  from Cons.prems have r: "r = None"
    using c by (auto split: option.splits prod.splits)
  from Cons.prems have pend: "snd (snd (pollLoop start h st' ps)) = None"
    using c r by (auto split: prod.splits)
  note ih = Cons.IH [OF pend]
  have n: "notifications ev =
     (case fetched start h p of
        Some s \<Rightarrow> if s \<noteq> lastStatus st then [s] else []
      | None \<Rightarrow> [])"
    and l: "lastStatus st' = (case fetched start h p of Some s \<Rightarrow> s | None \<Rightarrow> lastStatus st)"
    using cycle_notifications [of start h st p] c by simp_all
  have "notifications (fst (pollLoop start h st ((p # ps) @ [t]))) =
      notifications ev @ notifications (fst (pollLoop start h st' (ps @ [t])))"
    using c r by (simp add: notifications_append split: prod.splits)
  also have "\<dots> = tl (remdups_adj (lastStatus st # List.map_filter (fetched start h) ((p # ps) @ [t])))"
    by (cases "fetched start h p")
       (simp_all add: n l ih tl_remdups_adj_Cons)
  finally show ?case .
qed

lemma pollDeployment_alt:
  "pollDeployment start h ts =
     (Log Monitoring # fst (pollLoop start h \<lparr>lastDisplayedLength = 0, lastStatus = Val []\<rparr> ts),
      snd (snd (pollLoop start h \<lparr>lastDisplayedLength = 0, lastStatus = Val []\<rparr> ts)))"
  by (simp add: pollDeployment_def split: prod.splits)

text \<open>
  Claim C6, as amended. Over the statuses fetched in a session, a notification is
  printed for each fetched value that differs from the value fetched before it (from
  the empty string for the first): the notifications are the fetched sequence with
  adjacent repetitions removed, so there is one per run of equal values and not one
  per cycle, and a value that comes back after a different one is notified again.
\<close>

theorem status_change_notifications:
  assumes "snd (pollDeployment start h pre) = None"
  shows "notifications (fst (pollDeployment start h (pre @ [t]))) =
           tl (remdups_adj (Val [] # List.map_filter (fetched start h) (pre @ [t])))"
proof -
  let ?st = "\<lparr>lastDisplayedLength = 0, lastStatus = Val []\<rparr>"
  from assms have "snd (snd (pollLoop start h ?st pre)) = None"
    by (simp add: pollDeployment_alt)
  from pollLoop_notifications [OF this, of t] show ?thesis
    by (simp add: pollDeployment_alt)
qed

theorem status_change_notifications_witness:
  "notifications (fst (pollDeployment 0 (Val (IdNum 7))
       [tick_at 10000 (str ''deploying'') [], tick_at 20000 (str ''deploying'') [],
        tick_at 30000 (str ''finished'') []])) =
     [Val (str ''deploying''), Val (str ''finished'')]"
proof -
  let ?h = "Val (IdNum 7)"
  have 1: "snd (pollDeployment 0 ?h
       [tick_at 10000 (str ''deploying'') [], tick_at 20000 (str ''deploying'') []]) = None"
    by (simp add: pollDeployment_def run_simps)
  have 2: "List.map_filter (fetched 0 ?h)
       [tick_at 10000 (str ''deploying'') [], tick_at 20000 (str ''deploying'') [],
        tick_at 30000 (str ''finished'') []] =
     [Val (str ''deploying''), Val (str ''deploying''), Val (str ''finished'')]"
    by (simp add: fetched_def tick_at_def TIMEOUT_def getDeploymentStatus_200)
  from status_change_notifications [OF 1, of "tick_at 30000 (str ''finished'') []"]
  have "notifications (fst (pollDeployment 0 ?h
       [tick_at 10000 (str ''deploying'') [], tick_at 20000 (str ''deploying'') [],
        tick_at 30000 (str ''finished'') []])) =
     tl (remdups_adj [Val [], Val (str ''deploying''), Val (str ''deploying''),
                      Val (str ''finished'')])"
    by (simp only: append.simps 2)
  then show ?thesis
    by simp
qed

text \<open>
  Claim C6 as written fails when a value comes back: \<open>deploying\<close>, \<open>queued\<close>,
  \<open>deploying\<close> are two distinct values and give three notifications.
\<close>

theorem status_change_notifications_counterexample:
  "notifications (fst (pollDeployment 0 (Val (IdNum 7))
       [tick_at 10000 (str ''deploying'') [], tick_at 20000 (str ''queued'') [],
        tick_at 30000 (str ''deploying'') []])) =
     [Val (str ''deploying''), Val (str ''queued''), Val (str ''deploying'')]
   \<and> List.map_filter (fetched 0 (Val (IdNum 7)))
       [tick_at 10000 (str ''deploying'') [], tick_at 20000 (str ''queued'') [],
        tick_at 30000 (str ''deploying'') []] =
     [Val (str ''deploying''), Val (str ''queued''), Val (str ''deploying'')]
   \<and> card {Val (str ''deploying''), Val (str ''queued'')} = 2"
  by (simp add: pollDeployment_def run_simps fetched_def)

end
